theory Spec2Isabelle
  imports Main "HOL-Library.Word"
begin

section \<open>Go values: errors, panics, reference counts\<close>

text \<open>
  A Go \<open>error\<close> value is modelled as \<open>error option\<close>: \<open>None\<close> is \<open>nil\<close>.
  \<open>ErrInvalidParam\<close> is \<open>file.ErrInvalidParam\<close>, \<open>ErrPossibleDuplicate\<close> is
  \<open>data.ErrPossibleDuplicate\<close>, \<open>ErrSyntax\<close> and \<open>ErrRange\<close> are the two errors of
  \<open>strconv.ParseUint\<close> (carrying the offending text), and \<open>ErrEnv n\<close> stands for
  any error handed up by a collaborator (raw file store, index reader or writer).
\<close>

datatype error =
    ErrInvalidParam
  | ErrPossibleDuplicate
  | ErrSyntax string
  | ErrRange string
  | ErrEnv nat

text \<open>A call either returns a value or panics (index out of range, explicit \<open>panic\<close>).\<close>

datatype 'a go = Panics | Returns 'a

type_synonym byte = "8 word"

text \<open>
  Modelled from the spec: \<open>common.RefHelper\<close> (embedded by every store and file object;
  its file is not among the sources). The spec describes it as a counter incremented by
  \<open>ref()\<close> and decremented by \<open>unref()\<close>, whose destroy callback fires on the
  transition from count 1 to 0. \<open>Unref\<close> returns the updated counter together with
  the flag "the callback fired in this call".
\<close>

record RefHelper =
  Refs :: int

definition Ref :: "'a RefHelper_scheme \<Rightarrow> 'a RefHelper_scheme" where
  "Ref h = h\<lparr>Refs := Refs h + 1\<rparr>"

definition Unref :: "'a RefHelper_scheme \<Rightarrow> 'a RefHelper_scheme \<times> bool" where
  "Unref h = (h\<lparr>Refs := Refs h - 1\<rparr>, Refs h - 1 = 0)"

section \<open>Column store (\<open>columnBlock\<close>)\<close>

text \<open>
  \<open>segment.BlockFile\<close> handles are values of a type parameter \<open>'bf\<close>; the raw segment
  is a state of type \<open>'seg\<close> with the primitive
  \<open>NewBlockFile :: string \<Rightarrow> 'seg \<Rightarrow> 'bf \<times> 'seg\<close> taken as a parameter \<open>nbf\<close>.
  The index and update-log file objects carry their reference count and an opaque
  content; their \<open>Write\<close>/\<open>Read\<close> methods are parameters of the operations that call
  them. \<open>file_seq\<close> of a \<open>dataFile\<close> (the field \<open>file\<close>) is a Go slice: \<open>None\<close> is the nil slice,
  \<open>Some []\<close> the empty non-nil slice that \<open>make(_, 0)\<close> returns.
\<close>

record fileStat =
  fsize :: int
  originSize :: int
  algo :: "8 word"
  fname :: string

record 'x indexFile = RefHelper +
  icontent :: 'x

record 'u updatesFile = RefHelper +
  ucontent :: 'u

record 'bf dataFile = RefHelper +
  file_seq :: "'bf list option"
  stat :: fileStat

record ('x, 'u, 'bf) columnBlock = RefHelper +
  block_id :: "64 word"
  ts :: "64 word"
  indexes :: "'x indexFile list"
  updates :: "'u updatesFile"
  data :: "'bf dataFile"
  col :: int

text \<open>The handle an \<open>Open...File\<close> call returns points at one file object of the column.\<close>

datatype vfile = IndexFileOf nat | UpdatesFileOf | DataFileOf

subsection \<open>\<open>fmt.Sprintf\<close> with \<open>%d\<close>\<close>

definition digit_char :: "nat \<Rightarrow> char" where
  "digit_char d = ''0123456789'' ! d"

fun dec_nat :: "nat \<Rightarrow> string" where
  "dec_nat n = (if n < 10 then [digit_char n] else dec_nat (n div 10) @ [digit_char (n mod 10)])"

declare dec_nat.simps [simp del]

definition dec_int :: "int \<Rightarrow> string" where
  "dec_int i = (if i < 0 then CHR ''-'' # dec_nat (nat (- i)) else dec_nat (nat i))"

definition base_name :: "int \<Rightarrow> 64 word \<Rightarrow> string" where
  "base_name c b = dec_int c @ ''_'' @ dec_nat (unat b) @ ''.blk''"

definition version_name :: "int \<Rightarrow> 64 word \<Rightarrow> 64 word \<Rightarrow> string" where
  "version_name c b t = dec_int c @ ''_'' @ dec_nat (unat b) @ ''_'' @ dec_nat (unat t) @ ''.blk''"

subsection \<open>Constructors\<close>

text \<open>
  \<open>newIndex\<close>, \<open>newUpdates\<close> and \<open>newData\<close> are not among the sources; the objects
  they return are the parameters \<open>ni\<close>, \<open>nu\<close>, \<open>nd\<close>. \<open>make\<close> with a negative
  length panics. The zero-valued counter is 0 and the final \<open>cb.Ref()\<close> raises it.
\<close>

definition newColumnBlock ::
  "(string \<Rightarrow> 'seg \<Rightarrow> 'bf \<times> 'seg) \<Rightarrow> 'x indexFile \<Rightarrow> 'u updatesFile \<Rightarrow> 'bf dataFile \<Rightarrow>
   64 word \<Rightarrow> int \<Rightarrow> int \<Rightarrow> 'seg \<Rightarrow> (('x, 'u, 'bf) columnBlock \<times> 'seg) go" where
  "newColumnBlock nbf ni nu nd blk indexCnt c seg =
     (if indexCnt < 0 then Panics
      else (case nbf (base_name c blk) seg of (f, seg') \<Rightarrow>
        Returns (Ref \<lparr>Refs = 0, block_id = blk, ts = 0,
                      indexes = replicate (nat indexCnt) ni,
                      updates = nu,
                      data = nd\<lparr>file_seq := Some [f]\<rparr>,
                      col = c\<rparr>, seg')))"

definition openColumnBlock ::
  "'x indexFile \<Rightarrow> 'u updatesFile \<Rightarrow> 'bf dataFile \<Rightarrow>
   64 word \<Rightarrow> int \<Rightarrow> int \<Rightarrow> ('x, 'u, 'bf) columnBlock go" where
  "openColumnBlock ni nu nd blk indexCnt c =
     (if indexCnt < 0 then Panics
      else Returns (Ref \<lparr>Refs = 0, block_id = blk, ts = 0,
                         indexes = replicate (nat indexCnt) ni,
                         updates = nu,
                         data = nd\<lparr>file_seq := Some []\<rparr>,
                         col = c\<rparr>))"

subsection \<open>Operations\<close>

definition WriteTS ::
  "(string \<Rightarrow> 'seg \<Rightarrow> 'bf \<times> 'seg) \<Rightarrow> 64 word \<Rightarrow> ('x, 'u, 'bf) columnBlock \<Rightarrow> 'seg \<Rightarrow>
   error option \<times> ('x, 'u, 'bf) columnBlock \<times> 'seg" where
  "WriteTS nbf t cb seg =
     (let cb1 = cb\<lparr>ts := t\<rparr> in
      case file_seq (data cb1) of
        None \<Rightarrow> (None, cb1, seg)
      | Some fs \<Rightarrow>
          (case nbf (version_name (col cb1) (block_id cb1) t) seg of (f, seg') \<Rightarrow>
             (None, cb1\<lparr>data := (data cb1)\<lparr>file_seq := Some (fs @ [f])\<rparr>\<rparr>, seg')))"

definition ReadTS :: "('x, 'u, 'bf) columnBlock \<Rightarrow> 64 word" where
  "ReadTS cb = ts cb"

definition WriteIndex ::
  "(byte list \<Rightarrow> 'x indexFile \<Rightarrow> error option \<times> 'x indexFile) \<Rightarrow>
   int \<Rightarrow> byte list \<Rightarrow> ('x, 'u, 'bf) columnBlock \<Rightarrow>
   (error option \<times> ('x, 'u, 'bf) columnBlock) go" where
  "WriteIndex wr idx buf cb =
     (if idx \<ge> int (length (indexes cb)) then Returns (Some ErrInvalidParam, cb)
      else if idx < 0 then Panics
      else (case wr buf (indexes cb ! nat idx) of (err, vf) \<Rightarrow>
              Returns (err, cb\<lparr>indexes := (indexes cb)[nat idx := vf]\<rparr>)))"

text \<open>
  \<open>Read\<close> fills the caller's buffer: the parameter \<open>rd\<close> maps the buffer and the file
  to the error, the buffer afterwards and the file afterwards.
\<close>

definition ReadIndex ::
  "(byte list \<Rightarrow> 'x indexFile \<Rightarrow> error option \<times> byte list \<times> 'x indexFile) \<Rightarrow>
   int \<Rightarrow> byte list \<Rightarrow> ('x, 'u, 'bf) columnBlock \<Rightarrow>
   (error option \<times> byte list \<times> ('x, 'u, 'bf) columnBlock) go" where
  "ReadIndex rd idx buf cb =
     (if idx \<ge> int (length (indexes cb)) then Returns (Some ErrInvalidParam, buf, cb)
      else if idx < 0 then Panics
      else (case rd buf (indexes cb ! nat idx) of (err, buf', vf) \<Rightarrow>
              Returns (err, buf', cb\<lparr>indexes := (indexes cb)[nat idx := vf]\<rparr>)))"

definition OpenIndexFile ::
  "int \<Rightarrow> ('x, 'u, 'bf) columnBlock \<Rightarrow>
   (vfile option \<times> error option \<times> ('x, 'u, 'bf) columnBlock) go" where
  "OpenIndexFile idx cb =
     (if idx \<ge> int (length (indexes cb)) then Returns (None, Some ErrInvalidParam, cb)
      else if idx < 0 then Panics
      else Returns (Some (IndexFileOf (nat idx)), None,
                    cb\<lparr>indexes := (indexes cb)[nat idx := Ref (indexes cb ! nat idx)]\<rparr>))"

definition OpenUpdateFile ::
  "('x, 'u, 'bf) columnBlock \<Rightarrow> vfile \<times> error option \<times> ('x, 'u, 'bf) columnBlock" where
  "OpenUpdateFile cb = (DataFileOf, None, cb\<lparr>updates := Ref (updates cb)\<rparr>)"

definition OpenDataFile ::
  "('x, 'u, 'bf) columnBlock \<Rightarrow> vfile \<times> error option \<times> ('x, 'u, 'bf) columnBlock" where
  "OpenDataFile cb = (DataFileOf, None, cb\<lparr>data := Ref (data cb)\<rparr>)"

text \<open>
  \<open>Destroy\<close> first writes the line \<open>Destroying Block %d Col @ TS %d\<close> to the
  information log (an entry holds the two arguments, \<open>cb.block.id\<close> and \<open>cb.ts\<close>)
  and then hands every data-file version back to the raw segment through its
  \<open>ReleaseFile\<close> primitive (the parameter \<open>rel\<close>). The world it acts on is the raw
  segment together with the log. \<open>Close\<close> is one \<open>Unref\<close>, whose zero callback is
  \<open>cb.close\<close>, that is \<open>Destroy\<close>.
\<close>

type_synonym infolog = "(64 word \<times> 64 word) list"

definition Destroy ::
  "('bf \<Rightarrow> 'seg \<Rightarrow> 'seg) \<Rightarrow> ('x, 'u, 'bf) columnBlock \<Rightarrow> 'seg \<times> infolog \<Rightarrow> 'seg \<times> infolog" where
  "Destroy rel cb w =
     (case w of (seg, lg) \<Rightarrow>
        (let lg' = lg @ [(block_id cb, ts cb)] in
         case file_seq (data cb) of
           None \<Rightarrow> (seg, lg')
         | Some fs \<Rightarrow> (fold rel fs seg, lg')))"

definition Close ::
  "('bf \<Rightarrow> 'seg \<Rightarrow> 'seg) \<Rightarrow> ('x, 'u, 'bf) columnBlock \<Rightarrow> 'seg \<times> infolog \<Rightarrow>
   error option \<times> ('x, 'u, 'bf) columnBlock \<times> 'seg \<times> infolog" where
  "Close rel cb w =
     (case Unref cb of (cb', fired) \<Rightarrow>
        (None, cb', if fired then Destroy rel cb' w else w))"

section \<open>Immutable index (\<open>immutableIndex\<close>)\<close>

text \<open>
  The zone-map and bloom-filter readers are objects of types \<open>'z\<close> and \<open>'b\<close>; a nil
  pointer is \<open>None\<close>. Their methods and \<open>TranslateError\<close> are not among the sources
  and are taken as the parameter record \<open>readers\<close>, with the result tuples of the Go
  signatures; every method passes the reader object through, so that a reader may carry
  state (a cache, a call counter). Keys have type \<open>'k\<close>, key vectors are \<open>'k list\<close>, a
  bitmap pointer is \<open>'bm option\<close>. Calling a method of a nil reader is a nil-pointer
  dereference.
\<close>

record ('z, 'b) immutableIndex =
  zmReader :: "'z option"
  bfReader :: "'b option"

record ('k, 'bm, 'z, 'b) readers =
  Contains :: "'k \<Rightarrow> 'z \<Rightarrow> bool \<times> 'z"
  ContainsAny :: "'k list \<Rightarrow> 'z \<Rightarrow> ('bm option \<times> bool) \<times> 'z"
  MayContainsKey :: "'k \<Rightarrow> 'b \<Rightarrow> (bool \<times> error option) \<times> 'b"
  MayContainsAnyKeys :: "'k list \<Rightarrow> 'bm option \<Rightarrow> 'b \<Rightarrow> (bool \<times> 'bm option \<times> error option) \<times> 'b"
  TranslateError :: "error \<Rightarrow> error option"

definition NewImmutableIndex :: "('z, 'b) immutableIndex" where
  "NewImmutableIndex = \<lparr>zmReader = None, bfReader = None\<rparr>"

definition Dedup ::
  "('k, 'bm, 'z, 'b) readers \<Rightarrow> 'k \<Rightarrow> ('z, 'b) immutableIndex \<Rightarrow>
   (error option \<times> ('z, 'b) immutableIndex) go" where
  "Dedup R key index =
     (case zmReader index of
        None \<Rightarrow> Panics
      | Some z \<Rightarrow>
         (case Contains R key z of (exist, z') \<Rightarrow>
            (let index1 = index\<lparr>zmReader := Some z'\<rparr> in
             if \<not> exist then Returns (None, index1)
             else (case bfReader index1 of
                     None \<Rightarrow> Panics
                   | Some b \<Rightarrow>
                      (case MayContainsKey R key b of ((exist', err), b') \<Rightarrow>
                         (let index2 = index1\<lparr>bfReader := Some b'\<rparr> in
                          case err of
                            Some e \<Rightarrow> Returns (TranslateError R e, index2)
                          | None \<Rightarrow>
                              if exist' then Returns (Some ErrPossibleDuplicate, index2)
                              else Returns (None, index2)))))))"

text \<open>
  \<open>BatchDedup\<close> returns the selection bitmap \<open>keyselects\<close> and the error; \<open>rowmask\<close> is
  its second argument.
\<close>

definition BatchDedup ::
  "('k, 'bm, 'z, 'b) readers \<Rightarrow> 'k list \<Rightarrow> 'bm option \<Rightarrow> ('z, 'b) immutableIndex \<Rightarrow>
   ('bm option \<times> error option \<times> ('z, 'b) immutableIndex) go" where
  "BatchDedup R keys rowmask index =
     (case zmReader index of
        None \<Rightarrow> Panics
      | Some z \<Rightarrow>
         (case ContainsAny R keys z of ((keyselects, exist), z') \<Rightarrow>
            (let index1 = index\<lparr>zmReader := Some z'\<rparr> in
             if \<not> exist then Returns (keyselects, None, index1)
             else (case bfReader index1 of
                     None \<Rightarrow> Panics
                   | Some b \<Rightarrow>
                      (case MayContainsAnyKeys R keys keyselects b of
                         ((exist', keyselects', err), b') \<Rightarrow>
                         (let index2 = index1\<lparr>bfReader := Some b'\<rparr> in
                          case err of
                            Some e \<Rightarrow> Returns (keyselects', TranslateError R e, index2)
                          | None \<Rightarrow>
                              if \<not> exist' then Returns (keyselects', None, index2)
                              else Returns (keyselects', Some ErrPossibleDuplicate, index2)))))))"

section \<open>Block-file collaborators of the index builder and of \<open>ReadFrom\<close>\<close>

datatype IndexT = BlockZoneMapIndex | StaticFilterIndex | OtherIndexT nat

datatype CompressType = Plain | Lz4

record IndexMeta =
  IdxType :: IndexT
  CompType :: CompressType
  ColIdx :: "16 word"
  InternalIdx :: "16 word"

record ID =
  BlockID :: "64 word"
  PartID :: "32 word"
  Idx :: "16 word"

text \<open>
  The block file (\<open>file.Block\<close>), the column handle, the index writers, the metadata
  serializer and the reader constructors are interfaces and packages outside the
  sources. They are the fields of the parameter record \<open>collab\<close>, each a function on a
  world \<open>'w\<close> that holds the files and the writer objects: \<open>'c\<close> is a column handle,
  \<open>'f\<close> an index-file handle, \<open>'v\<close> a key vector, \<open>'buf\<close> a serialized metadata blob.
\<close>

record ('w, 'c, 'f, 'v, 'buf, 'z, 'b) collab =
  OpenColumn :: "int \<Rightarrow> 'w \<Rightarrow> (error + 'c) \<times> 'w"
  ColOpenIndexFile :: "'c \<Rightarrow> int \<Rightarrow> 'w \<Rightarrow> (error + 'f) \<times> 'w"
  NewZMWriter :: "'w \<Rightarrow> 'w"
  ZM_Init :: "'f \<Rightarrow> CompressType \<Rightarrow> 16 word \<Rightarrow> 16 word \<Rightarrow> 'w \<Rightarrow> error option \<times> 'w"
  ZM_AddValues :: "'v \<Rightarrow> 'w \<Rightarrow> error option \<times> 'w"
  ZM_Finalize :: "'w \<Rightarrow> (error + IndexMeta) \<times> 'w"
  NewBFWriter :: "'w \<Rightarrow> 'w"
  BF_Init :: "'f \<Rightarrow> CompressType \<Rightarrow> 16 word \<Rightarrow> 16 word \<Rightarrow> 'w \<Rightarrow> error option \<times> 'w"
  BF_AddValues :: "'v \<Rightarrow> 'w \<Rightarrow> error option \<times> 'w"
  BF_Finalize :: "'w \<Rightarrow> (error + IndexMeta) \<times> 'w"
  Marshal :: "IndexMeta list \<Rightarrow> 'w \<Rightarrow> (error + 'buf) \<times> 'w"
  WriteIndexMeta :: "'buf \<Rightarrow> 'w \<Rightarrow> error option \<times> 'w"
  LoadIndexMeta :: "'w \<Rightarrow> (error + IndexMeta list) \<times> 'w"
  StatSize :: "'f \<Rightarrow> 'w \<Rightarrow> int"
  ReadFile :: "'f \<Rightarrow> nat \<Rightarrow> 'w \<Rightarrow> error option \<times> 'w"
  NewZMReader :: "'f \<Rightarrow> ID \<Rightarrow> 'w \<Rightarrow> 'z \<times> 'w"
  NewBFReader :: "'f \<Rightarrow> ID \<Rightarrow> 'w \<Rightarrow> 'b \<times> 'w"

subsection \<open>\<open>BuildAndFlushBlockIndex\<close>\<close>

text \<open>
  \<open>pk\<close> is \<open>schema.PrimaryKey\<close>; \<open>uint16(pk)\<close> wraps. Every \<open>if err != nil\<close> of the
  source is one \<open>case\<close> below, in the source's order.
\<close>

definition BuildAndFlushBlockIndex ::
  "('w, 'c, 'f, 'v, 'buf, 'z, 'b) collab \<Rightarrow> int \<Rightarrow> 'v \<Rightarrow> 'w \<Rightarrow> error option \<times> 'w" where
  "BuildAndFlushBlockIndex E pk pkColumnData w =
   (case OpenColumn E pk w of
      (Inl err, w1) \<Rightarrow> (Some err, w1)
    | (Inr pkColumn, w1) \<Rightarrow>
   (let zmIdx = (0 :: 16 word); sfIdx = (1 :: 16 word); metas = [] in
    case ColOpenIndexFile E pkColumn (uint zmIdx) (NewZMWriter E w1) of
      (Inl err, w2) \<Rightarrow> (Some err, w2)
    | (Inr zmFile, w2) \<Rightarrow>
   (case ZM_Init E zmFile Plain (word_of_int pk) zmIdx w2 of
      (Some err, w3) \<Rightarrow> (Some err, w3)
    | (None, w3) \<Rightarrow>
   (case ZM_AddValues E pkColumnData w3 of
      (Some err, w4) \<Rightarrow> (Some err, w4)
    | (None, w4) \<Rightarrow>
   (case ZM_Finalize E w4 of
      (Inl err, w5) \<Rightarrow> (Some err, w5)
    | (Inr zmMeta, w5) \<Rightarrow>
   (let metas1 = metas @ [zmMeta] in
    case ColOpenIndexFile E pkColumn (uint sfIdx) (NewBFWriter E w5) of
      (Inl err, w6) \<Rightarrow> (Some err, w6)
    | (Inr sfFile, w6) \<Rightarrow>
   (case BF_Init E sfFile Plain (word_of_int pk) sfIdx w6 of
      (Some err, w7) \<Rightarrow> (Some err, w7)
    | (None, w7) \<Rightarrow>
   (case BF_AddValues E pkColumnData w7 of
      (Some err, w8) \<Rightarrow> (Some err, w8)
    | (None, w8) \<Rightarrow>
   (case BF_Finalize E w8 of
      (Inl err, w9) \<Rightarrow> (Some err, w9)
    | (Inr sfMeta, w9) \<Rightarrow>
   (let metas2 = metas1 @ [sfMeta] in
    case Marshal E metas2 w9 of
      (Inl err, w10) \<Rightarrow> (Some err, w10)
    | (Inr metaBuf, w10) \<Rightarrow>
   (case WriteIndexMeta E metaBuf w10 of
      (Some err, w11) \<Rightarrow> (Some err, w11)
    | (None, w11) \<Rightarrow> (None, w11))))))))))))"

subsection \<open>\<open>ReadFrom\<close>\<close>

text \<open>
  \<open>cid\<close> is \<open>entry.AsCommonID()\<close>. \<open>make([]byte, size)\<close> panics on a negative size,
  and an index kind other than the two known ones reaches \<open>panic("unsupported index
  type")\<close>. The bytes read into \<open>buf\<close> are dropped by the source.
\<close>

fun ReadFrom_loop ::
  "('w, 'c, 'f, 'v, 'buf, 'z, 'b) collab \<Rightarrow> ID \<Rightarrow> 'c \<Rightarrow> IndexMeta list \<Rightarrow>
   ('z, 'b) immutableIndex \<Rightarrow> 'w \<Rightarrow> (error option \<times> ('z, 'b) immutableIndex \<times> 'w) go" where
  "ReadFrom_loop E cid colFile [] index w = Returns (None, index, w)"
| "ReadFrom_loop E cid colFile (meta # metas) index w =
     (case ColOpenIndexFile E colFile (uint (InternalIdx meta)) w of
        (Inl err, w1) \<Rightarrow> Returns (Some err, index, w1)
      | (Inr idxFile, w1) \<Rightarrow>
         (let id = cid\<lparr>PartID := ucast (InternalIdx meta) + 1000, Idx := ColIdx meta\<rparr> in
          case IdxType meta of
            BlockZoneMapIndex \<Rightarrow>
              (let sz = StatSize E idxFile w1 in
               if sz < 0 then Panics
               else (case ReadFile E idxFile (nat sz) w1 of
                       (Some err, w2) \<Rightarrow> Returns (Some err, index, w2)
                     | (None, w2) \<Rightarrow>
                        (case NewZMReader E idxFile id w2 of (z, w3) \<Rightarrow>
                           ReadFrom_loop E cid colFile metas (index\<lparr>zmReader := Some z\<rparr>) w3)))
          | StaticFilterIndex \<Rightarrow>
              (let sz = StatSize E idxFile w1 in
               if sz < 0 then Panics
               else (case ReadFile E idxFile (nat sz) w1 of
                       (Some err, w2) \<Rightarrow> Returns (Some err, index, w2)
                     | (None, w2) \<Rightarrow>
                        (case NewBFReader E idxFile id w2 of (b, w3) \<Rightarrow>
                           ReadFrom_loop E cid colFile metas (index\<lparr>bfReader := Some b\<rparr>) w3)))
          | OtherIndexT _ \<Rightarrow> Panics))"

definition ReadFrom ::
  "('w, 'c, 'f, 'v, 'buf, 'z, 'b) collab \<Rightarrow> int \<Rightarrow> ID \<Rightarrow>
   ('z, 'b) immutableIndex \<Rightarrow> 'w \<Rightarrow> (error option \<times> ('z, 'b) immutableIndex \<times> 'w) go" where
  "ReadFrom E pk cid index w =
     (case LoadIndexMeta E w of
        (Inl err, w1) \<Rightarrow> Returns (Some err, index, w1)
      | (Inr metas, w1) \<Rightarrow>
         (case OpenColumn E pk w1 of
            (Inl err, w2) \<Rightarrow> Returns (Some err, index, w2)
          | (Inr colFile, w2) \<Rightarrow> ReadFrom_loop E cid colFile metas index w2))"

section \<open>Segment store: \<open>segmentFile.Replay\<close>\<close>

subsection \<open>\<open>strings.Split\<close> and \<open>strconv.ParseUint\<close>\<close>







subsection \<open>Block and segment stores\<close>










section \<open>Reference-counted use of a store\<close>

text \<open>
  A client of a column store either takes a reference (\<open>Ref\<close>) or gives one back
  (\<open>Close\<close>). \<open>rc_step\<close> performs one such operation on the column and the world (the
  raw segment and the information log); \<open>rc_states\<close> lists the states a sequence of
  operations passes through, the initial one first. The number of times the zero
  callback has run is read off the world: each run of \<open>Destroy\<close> leaves one line in the
  log. \<open>sf_states\<close> does the same for a segment store, whose \<open>Close\<close> returns \<open>nil\<close>
  and does nothing else.
\<close>

datatype rcop = OpRef | OpClose

definition rc_step ::
  "('bf \<Rightarrow> 'seg \<Rightarrow> 'seg) \<Rightarrow> rcop \<Rightarrow> ('x, 'u, 'bf) columnBlock \<times> 'seg \<times> infolog \<Rightarrow>
   ('x, 'u, 'bf) columnBlock \<times> 'seg \<times> infolog" where
  "rc_step rel op s =
     (case s of (cb, w) \<Rightarrow>
        (case op of
           OpRef \<Rightarrow> (Ref cb, w)
         | OpClose \<Rightarrow> (case Close rel cb w of (err, cb', w') \<Rightarrow> (cb', w'))))"

fun rc_states ::
  "('bf \<Rightarrow> 'seg \<Rightarrow> 'seg) \<Rightarrow> rcop list \<Rightarrow> ('x, 'u, 'bf) columnBlock \<times> 'seg \<times> infolog \<Rightarrow>
   (('x, 'u, 'bf) columnBlock \<times> 'seg \<times> infolog) list" where
  "rc_states rel [] s = [s]"
| "rc_states rel (op # ops) s = s # rc_states rel ops (rc_step rel op s)"



section \<open>An instrumented block file\<close>

text \<open>
  \<open>logged E\<close> is the collaborator record \<open>E\<close> with a call log added to the world: every
  call appends its name and its outcome (\<open>None\<close> for success, the error otherwise).
  \<open>build_script\<close> is the sequence of collaborator calls of a complete run of
  \<open>BuildAndFlushBlockIndex\<close>.
\<close>

datatype step =
    S_OpenColumn | S_OpenIndexFile int
  | S_NewZMWriter | S_ZM_Init | S_ZM_AddValues | S_ZM_Finalize
  | S_NewBFWriter | S_BF_Init | S_BF_AddValues | S_BF_Finalize
  | S_Marshal | S_WriteIndexMeta
  | S_LoadIndexMeta | S_ReadFile | S_NewZMReader | S_NewBFReader

type_synonym calllog = "(step \<times> error option) list"

definition log_sum ::
  "step \<Rightarrow> ('w \<Rightarrow> (error + 'a) \<times> 'w) \<Rightarrow> 'w \<times> calllog \<Rightarrow> (error + 'a) \<times> 'w \<times> calllog" where
  "log_sum st f s =
     (case s of (w, l) \<Rightarrow>
        (case f w of
           (Inl err, w') \<Rightarrow> (Inl err, w', l @ [(st, Some err)])
         | (Inr a, w') \<Rightarrow> (Inr a, w', l @ [(st, None)])))"

definition log_err ::
  "step \<Rightarrow> ('w \<Rightarrow> error option \<times> 'w) \<Rightarrow> 'w \<times> calllog \<Rightarrow> error option \<times> 'w \<times> calllog" where
  "log_err st f s = (case s of (w, l) \<Rightarrow> (case f w of (r, w') \<Rightarrow> (r, w', l @ [(st, r)])))"

definition log_new ::
  "step \<Rightarrow> ('w \<Rightarrow> 'a \<times> 'w) \<Rightarrow> 'w \<times> calllog \<Rightarrow> 'a \<times> 'w \<times> calllog" where
  "log_new st f s = (case s of (w, l) \<Rightarrow> (case f w of (a, w') \<Rightarrow> (a, w', l @ [(st, None)])))"

definition logged ::
  "('w, 'c, 'f, 'v, 'buf, 'z, 'b) collab \<Rightarrow> ('w \<times> calllog, 'c, 'f, 'v, 'buf, 'z, 'b) collab" where
  "logged E =
     \<lparr>OpenColumn = (\<lambda>i. log_sum S_OpenColumn (OpenColumn E i)),
      ColOpenIndexFile = (\<lambda>c i. log_sum (S_OpenIndexFile i) (ColOpenIndexFile E c i)),
      NewZMWriter = (\<lambda>s. snd (log_new S_NewZMWriter (\<lambda>w. ((), NewZMWriter E w)) s)),
      ZM_Init = (\<lambda>f ct ci ii. log_err S_ZM_Init (ZM_Init E f ct ci ii)),
      ZM_AddValues = (\<lambda>v. log_err S_ZM_AddValues (ZM_AddValues E v)),
      ZM_Finalize = log_sum S_ZM_Finalize (ZM_Finalize E),
      NewBFWriter = (\<lambda>s. snd (log_new S_NewBFWriter (\<lambda>w. ((), NewBFWriter E w)) s)),
      BF_Init = (\<lambda>f ct ci ii. log_err S_BF_Init (BF_Init E f ct ci ii)),
      BF_AddValues = (\<lambda>v. log_err S_BF_AddValues (BF_AddValues E v)),
      BF_Finalize = log_sum S_BF_Finalize (BF_Finalize E),
      Marshal = (\<lambda>ms. log_sum S_Marshal (Marshal E ms)),
      WriteIndexMeta = (\<lambda>buf. log_err S_WriteIndexMeta (WriteIndexMeta E buf)),
      LoadIndexMeta = log_sum S_LoadIndexMeta (LoadIndexMeta E),
      StatSize = (\<lambda>f s. StatSize E f (fst s)),
      ReadFile = (\<lambda>f n. log_err S_ReadFile (ReadFile E f n)),
      NewZMReader = (\<lambda>f i. log_new S_NewZMReader (NewZMReader E f i)),
      NewBFReader = (\<lambda>f i. log_new S_NewBFReader (NewBFReader E f i))\<rparr>"

definition build_script :: "step list" where
  "build_script =
     [S_OpenColumn,
      S_NewZMWriter, S_OpenIndexFile 0, S_ZM_Init, S_ZM_AddValues, S_ZM_Finalize,
      S_NewBFWriter, S_OpenIndexFile 1, S_BF_Init, S_BF_AddValues, S_BF_Finalize,
      S_Marshal, S_WriteIndexMeta]"

section \<open>The index contents the spec describes\<close>

text \<open>
  Modelled from the spec: the zone map (\<open>index.ZoneMap\<close> and its writer and reader are
  not among the sources). The spec: "(min key, max key) summary computed once over a
  block's primary-key column; exact". \<open>None\<close> is the zone map of no values.
\<close>

type_synonym 'k zonemap = "('k \<times> 'k) option"

fun zm_add :: "'k::linorder \<Rightarrow> 'k zonemap \<Rightarrow> 'k zonemap" where
  "zm_add v None = Some (v, v)"
| "zm_add v (Some (lo, hi)) = Some (min lo v, max hi v)"

fun zm_contains :: "'k::linorder zonemap \<Rightarrow> 'k \<Rightarrow> bool" where
  "zm_contains None k = False"
| "zm_contains (Some (lo, hi)) k = (lo \<le> k \<and> k \<le> hi)"

text \<open>
  Modelled from the spec: the bloom filter (the static filter and its writer and reader
  are not among the sources). The spec: "probabilistic set-membership summary over a
  block's primary-key column; guarantees no false negatives, allows false positives",
  built by inserting every primary-key value. The spec fixes neither the hash family nor
  the size: \<open>hs\<close> (the hash functions) and \<open>m\<close> (the number of bits) are parameters.
  The filter is the set of the bit positions that are set.
\<close>

definition bf_add :: "('k \<Rightarrow> nat) list \<Rightarrow> nat \<Rightarrow> 'k \<Rightarrow> nat set \<Rightarrow> nat set" where
  "bf_add hs m v bits = bits \<union> set (map (\<lambda>h. h v mod m) hs)"

definition bf_may_contain :: "('k \<Rightarrow> nat) list \<Rightarrow> nat \<Rightarrow> nat set \<Rightarrow> 'k \<Rightarrow> bool" where
  "bf_may_contain hs m bits k = list_all (\<lambda>h. h k mod m \<in> bits) hs"

text \<open>
  Modelled from the spec: a block file in memory. The spec's block handle offers
  \<open>openColumn\<close>, \<open>loadIndexMeta\<close> and \<open>writeIndexMeta\<close>; the primary-key column has a
  fixed array of index-slot files, and opening a slot beyond it is the out-of-range
  error; the zone-map writer serializes the exact minimum and maximum into its slot and
  records the descriptor \<open>(ZoneMap, column, slot)\<close>, the bloom-filter writer inserts
  every value, serializes into its slot and records \<open>(BloomFilter, column, slot)\<close>;
  the metadata blob is the serialized descriptor sequence. Serialization is the
  identity here, and a reader is constructed with the content of the slot it is bound to.
\<close>

datatype 'k payload = NoPayload | ZMPayload "'k zonemap" | BFPayload "nat set"

record 'k block_world =
  slots :: "'k payload list"
  metablob :: "IndexMeta list option"
  zmw :: "(nat \<times> 16 word \<times> 16 word \<times> 'k zonemap) option"
  bfw :: "(nat \<times> 16 word \<times> 16 word \<times> nat set) option"

definition spec_collab ::
  "('k::linorder \<Rightarrow> nat) list \<Rightarrow> nat \<Rightarrow>
   ('k block_world, int, nat, 'k list, IndexMeta list, 'k payload, 'k payload) collab" where
  "spec_collab hs m =
     \<lparr>OpenColumn = (\<lambda>i w. (Inr i, w)),
      ColOpenIndexFile = (\<lambda>c i w.
         (if i < 0 \<or> int (length (slots w)) \<le> i then Inl ErrInvalidParam else Inr (nat i), w)),
      NewZMWriter = (\<lambda>w. w\<lparr>zmw := None\<rparr>),
      ZM_Init = (\<lambda>f ct ci ii w. (None, w\<lparr>zmw := Some (f, ci, ii, None)\<rparr>)),
      ZM_AddValues = (\<lambda>vs w.
         (case zmw w of
            None \<Rightarrow> (Some (ErrEnv 1), w)
          | Some (f, ci, ii, acc) \<Rightarrow> (None, w\<lparr>zmw := Some (f, ci, ii, fold zm_add vs acc)\<rparr>))),
      ZM_Finalize = (\<lambda>w.
         (case zmw w of
            None \<Rightarrow> (Inl (ErrEnv 1), w)
          | Some (f, ci, ii, acc) \<Rightarrow>
              (Inr \<lparr>IdxType = BlockZoneMapIndex, CompType = Plain, ColIdx = ci, InternalIdx = ii\<rparr>,
               w\<lparr>slots := (slots w)[f := ZMPayload acc]\<rparr>))),
      NewBFWriter = (\<lambda>w. w\<lparr>bfw := None\<rparr>),
      BF_Init = (\<lambda>f ct ci ii w. (None, w\<lparr>bfw := Some (f, ci, ii, {})\<rparr>)),
      BF_AddValues = (\<lambda>vs w.
         (case bfw w of
            None \<Rightarrow> (Some (ErrEnv 1), w)
          | Some (f, ci, ii, bits) \<Rightarrow> (None, w\<lparr>bfw := Some (f, ci, ii, fold (bf_add hs m) vs bits)\<rparr>))),
      BF_Finalize = (\<lambda>w.
         (case bfw w of
            None \<Rightarrow> (Inl (ErrEnv 1), w)
          | Some (f, ci, ii, bits) \<Rightarrow>
              (Inr \<lparr>IdxType = StaticFilterIndex, CompType = Plain, ColIdx = ci, InternalIdx = ii\<rparr>,
               w\<lparr>slots := (slots w)[f := BFPayload bits]\<rparr>))),
      Marshal = (\<lambda>ms w. (Inr ms, w)),
      WriteIndexMeta = (\<lambda>buf w. (None, w\<lparr>metablob := Some buf\<rparr>)),
      LoadIndexMeta = (\<lambda>w. (case metablob w of None \<Rightarrow> Inl (ErrEnv 2) | Some ms \<Rightarrow> Inr ms, w)),
      StatSize = (\<lambda>f w. 1),
      ReadFile = (\<lambda>f n w. (None, w)),
      NewZMReader = (\<lambda>f i w. (if f < length (slots w) then slots w ! f else NoPayload, w)),
      NewBFReader = (\<lambda>f i w. (if f < length (slots w) then slots w ! f else NoPayload, w))\<rparr>"

text \<open>
  Modelled from the spec: the methods of the two readers (\<open>ZMReader\<close>, \<open>BFReader\<close>) and
  \<open>TranslateError\<close>. The zone-map reader answers whether the key lies within
  \<open>[min, max]\<close>; the bloom-filter reader answers membership, and fails with a decode
  error when its slot does not hold a filter. Bitmaps are sets of row offsets.
\<close>

definition ZMReader_Contains :: "'k::linorder \<Rightarrow> 'k payload \<Rightarrow> bool \<times> 'k payload" where
  "ZMReader_Contains k z = (case z of ZMPayload zm \<Rightarrow> zm_contains zm k | _ \<Rightarrow> False, z)"

definition BFReader_MayContainsKey ::
  "('k \<Rightarrow> nat) list \<Rightarrow> nat \<Rightarrow> 'k \<Rightarrow> 'k payload \<Rightarrow> (bool \<times> error option) \<times> 'k payload" where
  "BFReader_MayContainsKey hs m k b =
     (case b of
        BFPayload bits \<Rightarrow> (bf_may_contain hs m bits k, None)
      | _ \<Rightarrow> (False, Some (ErrEnv 3)), b)"

definition spec_readers ::
  "('k::linorder \<Rightarrow> nat) list \<Rightarrow> nat \<Rightarrow> ('k, nat set, 'k payload, 'k payload) readers" where
  "spec_readers hs m =
     \<lparr>Contains = ZMReader_Contains,
      ContainsAny = (\<lambda>ks z.
         (case z of
            ZMPayload zm \<Rightarrow>
              (Some (set (filter (\<lambda>i. zm_contains zm (ks ! i)) [0..<length ks])),
               list_ex (zm_contains zm) ks)
          | _ \<Rightarrow> (None, False), z)),
      MayContainsKey = BFReader_MayContainsKey hs m,
      MayContainsAnyKeys = (\<lambda>ks sel b.
         (case (b, sel) of
            (BFPayload bits, Some rows) \<Rightarrow>
              (list_ex (\<lambda>i. i \<in> rows \<and> bf_may_contain hs m bits (ks ! i)) [0..<length ks],
               Some (set (filter (\<lambda>i. i \<in> rows \<and> bf_may_contain hs m bits (ks ! i)) [0..<length ks])),
               None)
          | _ \<Rightarrow> (False, None, Some (ErrEnv 3)), b)),
      TranslateError = (\<lambda>err. Some err)\<rparr>"

definition fresh_block :: "nat \<Rightarrow> 'k block_world" where
  "fresh_block n = \<lparr>slots = replicate n NoPayload, metablob = None, zmw = None, bfw = None\<rparr>"

section \<open>Concrete inputs\<close>

text \<open>
  A raw segment that hands out its file names as handles and records the names it has
  created, file objects with a content of bytes, and the column 0 of block 1 with two
  index slots, as \<open>newColumnBlock\<close> and as \<open>openColumnBlock\<close> build it.
\<close>

definition ex_nbf :: "string \<Rightarrow> string list \<Rightarrow> string \<times> string list" where
  "ex_nbf n seg = (n, seg @ [n])"


definition ex_ni :: "byte list indexFile" where
  "ex_ni = \<lparr>Refs = 1, icontent = []\<rparr>"

definition ex_nu :: "byte list updatesFile" where
  "ex_nu = \<lparr>Refs = 1, ucontent = []\<rparr>"

definition ex_stat :: fileStat where
  "ex_stat = \<lparr>fsize = 0, originSize = 0, algo = 0, fname = []\<rparr>"

definition ex_nd :: "string dataFile" where
  "ex_nd = \<lparr>Refs = 1, file_seq = None, stat = ex_stat\<rparr>"

definition ex_wr :: "byte list \<Rightarrow> byte list indexFile \<Rightarrow> error option \<times> byte list indexFile" where
  "ex_wr buf f = (None, f\<lparr>icontent := buf\<rparr>)"

definition ex_rd ::
  "byte list \<Rightarrow> byte list indexFile \<Rightarrow> error option \<times> byte list \<times> byte list indexFile" where
  "ex_rd buf f = (None, take (length buf) (icontent f), f)"

definition ex_new_cb :: "(byte list, byte list, string) columnBlock" where
  "ex_new_cb =
     \<lparr>Refs = 1, block_id = 1, ts = 0, indexes = [ex_ni, ex_ni], updates = ex_nu,
      data = \<lparr>Refs = 1, file_seq = Some [''0_1.blk''], stat = ex_stat\<rparr>, col = 0\<rparr>"

definition ex_open_cb :: "(byte list, byte list, string) columnBlock" where
  "ex_open_cb =
     \<lparr>Refs = 1, block_id = 1, ts = 0, indexes = [ex_ni, ex_ni], updates = ex_nu,
      data = \<lparr>Refs = 1, file_seq = Some [], stat = ex_stat\<rparr>, col = 0\<rparr>"

text \<open>
  A bloom-filter reader that counts the calls made to it, a zone-map reader over the
  payload the spec describes, and the index over the zone map \<open>[1, 50]\<close> with the
  counter at zero. The keys are integers; two hash functions over 16 bits serve the
  bloom filter of the block built from the keys \<open>[1, 5, 10, 50]\<close>.
\<close>

definition ex_counting_readers :: "(int, nat set, int payload, nat) readers" where
  "ex_counting_readers =
     \<lparr>Contains = ZMReader_Contains,
      ContainsAny = (\<lambda>ks z. ((None, False), z)),
      MayContainsKey = (\<lambda>k n. ((True, None), n + 1)),
      MayContainsAnyKeys = (\<lambda>ks sel n. ((True, sel, None), n + 1)),
      TranslateError = (\<lambda>err. Some err)\<rparr>"

definition ex_counting_index :: "(int payload, nat) immutableIndex" where
  "ex_counting_index = \<lparr>zmReader = Some (ZMPayload (Some (1, 50))), bfReader = Some 0\<rparr>"

definition ex_hs :: "(int \<Rightarrow> nat) list" where
  "ex_hs = [\<lambda>k. nat k, \<lambda>k. nat (3 * k + 1)]"

definition ex_cid :: ID where
  "ex_cid = \<lparr>BlockID = 1, PartID = 0, Idx = 0\<rparr>"





section \<open>Properties of the column store\<close>

lemma dec_nat_digit: "n < 10 \<Longrightarrow> dec_nat n = [digit_char n]"
  by (simp add: dec_nat.simps)

lemma ex_version_name: "version_name 0 1 7 = ''0_1_7.blk''"
  by (simp add: version_name_def dec_int_def dec_nat_digit digit_char_def)

lemma ex_open_cb_eq: "openColumnBlock ex_ni ex_nu ex_nd 1 2 0 = Returns ex_open_cb"
  by (simp add: openColumnBlock_def ex_open_cb_def ex_nd_def Ref_def numeral_2_eq_2)

lemma ex_base_name: "base_name 0 1 = ''0_1.blk''"
  by (simp add: base_name_def dec_int_def dec_nat_digit digit_char_def)

lemma ex_new_cb_eq:
  "newColumnBlock ex_nbf ex_ni ex_nu ex_nd 1 2 0 [] = Returns (ex_new_cb, [''0_1.blk''])"
  by (simp add: newColumnBlock_def ex_base_name ex_nbf_def ex_new_cb_def ex_nd_def Ref_def
      numeral_2_eq_2)

text \<open>
  C3 (the code departs from the claim): \<open>OpenUpdateFile\<close> raises the reference count of
  the update-log file by one, but the handle it returns is the data file, not the
  update-log file; the data file's count is left as it was.
\<close>

theorem openUpdateFile_returns_data_handle:
  "OpenUpdateFile cb = (DataFileOf, None, cb\<lparr>updates := Ref (updates cb)\<rparr>) \<and>
   fst (OpenUpdateFile cb) \<noteq> UpdatesFileOf \<and>
   Refs (updates (snd (snd (OpenUpdateFile cb)))) = Refs (updates cb) + 1 \<and>
   Refs (data (snd (snd (OpenUpdateFile cb)))) = Refs (data cb)"
  by (simp add: OpenUpdateFile_def Ref_def)

text \<open>
  C4, as stated, fails: a column store opened for replay has an empty but non-nil
  data-file sequence, and \<open>WriteTS\<close> on it does append. Here the column 0 of block 1 is
  opened with \<open>openColumnBlock\<close> (no base file) and \<open>WriteTS 7\<close> leaves the sequence
  \<open>[0_1_7.blk]\<close>.
\<close>

theorem writeVersion_after_open_counterexample:
  "openColumnBlock ex_ni ex_nu ex_nd 1 2 0 = Returns ex_open_cb \<and>
   file_seq (data ex_open_cb) = Some [] \<and>
   file_seq (data (fst (snd (WriteTS ex_nbf 7 ex_open_cb [])))) = Some [''0_1_7.blk'']"
  by (simp add: ex_open_cb_eq)
     (simp add: ex_open_cb_def WriteTS_def Let_def ex_version_name ex_nbf_def)

text \<open>
  C4, amended: \<open>WriteTS t\<close> appends a new versioned data file exactly when the data-file
  sequence is non-nil, and only records the timestamp when it is nil. Both constructors
  leave a non-nil sequence: \<open>openColumnBlock\<close> the empty one, so that the first
  \<open>WriteTS\<close> on a column opened for replay appends the versioned file as the only
  entry; \<open>newColumnBlock\<close> the base file, after which \<open>WriteTS\<close> appends the versioned
  file behind it.
\<close>

theorem writeVersion_appends_iff_non_nil:
  "(file_seq (data cb) = None \<longrightarrow>
      WriteTS nbf t cb seg = (None, cb\<lparr>ts := t\<rparr>, seg)) \<and>
   (\<forall>fs. file_seq (data cb) = Some fs \<longrightarrow>
      file_seq (data (fst (snd (WriteTS nbf t cb seg)))) =
        Some (fs @ [fst (nbf (version_name (col cb) (block_id cb) t) seg)])) \<and>
   (\<forall>cb0. openColumnBlock ni nu nd blk n c = Returns cb0 \<longrightarrow>
      file_seq (data cb0) = Some [] \<and>
      file_seq (data (fst (snd (WriteTS nbf t cb0 seg)))) =
        Some [fst (nbf (version_name c blk t) seg)]) \<and>
   (\<forall>cb1 seg1. newColumnBlock nbf ni nu nd blk n c seg = Returns (cb1, seg1) \<longrightarrow>
      file_seq (data cb1) = Some [fst (nbf (base_name c blk) seg)] \<and>
      file_seq (data (fst (snd (WriteTS nbf t cb1 seg1)))) =
        Some [fst (nbf (base_name c blk) seg), fst (nbf (version_name c blk t) seg1)])"
  by (auto simp add: WriteTS_def Let_def openColumnBlock_def newColumnBlock_def Ref_def
      split: prod.splits if_splits)

theorem writeVersion_appends_iff_non_nil_witness:
  "file_seq (data (ex_open_cb\<lparr>data := ex_nd\<rparr>)) = None \<and>
   WriteTS ex_nbf 7 (ex_open_cb\<lparr>data := ex_nd\<rparr>) [] = (None, ex_open_cb\<lparr>data := ex_nd, ts := 7\<rparr>, []) \<and>
   openColumnBlock ex_ni ex_nu ex_nd 1 2 0 = Returns ex_open_cb \<and>
   file_seq (data ex_open_cb) = Some [] \<and>
   file_seq (data (fst (snd (WriteTS ex_nbf 7 ex_open_cb [])))) = Some [''0_1_7.blk''] \<and>
   newColumnBlock ex_nbf ex_ni ex_nu ex_nd 1 2 0 [] = Returns (ex_new_cb, [''0_1.blk'']) \<and>
   file_seq (data (fst (snd (WriteTS ex_nbf 7 ex_new_cb [''0_1.blk''])))) =
     Some [''0_1.blk'', ''0_1_7.blk'']"
proof -
  have h0: "file_seq (data (ex_open_cb\<lparr>data := ex_nd\<rparr>)) = None"
    by (simp add: ex_nd_def)
  have h1: "openColumnBlock ex_ni ex_nu ex_nd 1 2 0 = Returns ex_open_cb"
    by (rule ex_open_cb_eq)
  have h2: "newColumnBlock ex_nbf ex_ni ex_nu ex_nd 1 2 0 [] = Returns (ex_new_cb, [''0_1.blk''])"
    by (rule ex_new_cb_eq)
  from writeVersion_appends_iff_non_nil
         [of "ex_open_cb\<lparr>data := ex_nd\<rparr>" ex_nbf 7 "[]" ex_ni ex_nu ex_nd 1 2 0] h0 h1 h2
  show ?thesis
    by (simp add: ex_version_name ex_base_name ex_nbf_def)
qed

text \<open>
  C7: for every slot at or beyond the number of index slots of the column,
  \<open>WriteIndex\<close> and \<open>ReadIndex\<close> return \<open>ErrInvalidParam\<close> and leave the column store
  (and the caller's read buffer) as they were, whatever the file primitives \<open>wr\<close> and
  \<open>rd\<close> would do: no file is written or read.
\<close>

theorem out_of_range_slot:
  "int (length (indexes cb)) \<le> slot \<Longrightarrow>
     WriteIndex wr slot bytes cb = Returns (Some ErrInvalidParam, cb) \<and>
     ReadIndex rd slot buffer cb = Returns (Some ErrInvalidParam, buffer, cb)"
  by (simp add: WriteIndex_def ReadIndex_def)

theorem out_of_range_slot_witness:
  "int (length (indexes ex_new_cb)) \<le> 2 \<and>
   WriteIndex ex_wr 2 [1, 2] ex_new_cb = Returns (Some ErrInvalidParam, ex_new_cb) \<and>
   ReadIndex ex_rd 2 [0, 0] ex_new_cb = Returns (Some ErrInvalidParam, [0, 0], ex_new_cb)"
proof -
  have h: "int (length (indexes ex_new_cb)) \<le> 2"
    by (simp add: ex_new_cb_def)
  from out_of_range_slot [OF h, of ex_wr "[1, 2]" ex_rd "[0, 0]"] h show ?thesis
    by simp
qed

text \<open>
  C8: when the data-file sequence of a column store is non-nil, \<open>WriteTS T\<close> returns no
  error, makes the sequence one entry longer, keeps every earlier entry at its position
  (the new sequence is the old one followed by the new file), and \<open>ReadTS\<close> afterwards
  returns \<open>T\<close>.
\<close>

theorem writeVersion_append_only:
  assumes "file_seq (data cb) = Some fs"
  shows "case WriteTS nbf T cb seg of (err, cb', seg') \<Rightarrow>
           err = None \<and>
           file_seq (data cb') = Some (fs @ [fst (nbf (version_name (col cb) (block_id cb) T) seg)]) \<and>
           length (the (file_seq (data cb'))) = length fs + 1 \<and>
           take (length fs) (the (file_seq (data cb'))) = fs \<and>
           ReadTS cb' = T"
  using assms by (simp add: WriteTS_def ReadTS_def Let_def split: prod.splits)

theorem writeVersion_append_only_witness:
  "file_seq (data ex_new_cb) = Some [''0_1.blk''] \<and>
   (case WriteTS ex_nbf 7 ex_new_cb [''0_1.blk''] of (err, cb', seg') \<Rightarrow>
      err = None \<and>
      file_seq (data cb') = Some [''0_1.blk'', ''0_1_7.blk''] \<and>
      length (the (file_seq (data cb'))) = 2 \<and>
      take 1 (the (file_seq (data cb'))) = [''0_1.blk''] \<and>
      ReadTS cb' = 7)"
proof -
  have h: "file_seq (data ex_new_cb) = Some [''0_1.blk'']"
    by (simp add: ex_new_cb_def)
  have c: "col ex_new_cb = 0" "block_id ex_new_cb = 1"
    by (simp_all add: ex_new_cb_def)
  from writeVersion_append_only [OF h, of ex_nbf 7 "[''0_1.blk'']"] h show ?thesis
    by (simp add: c ex_version_name ex_nbf_def split: prod.splits)
qed

section \<open>Properties of the immutable index\<close>

text \<open>
  C10: the result of \<open>BatchDedup\<close> (selection bitmap, error and index afterwards) is the
  same for any two values of its row-mask argument.
\<close>

theorem batchDedup_ignores_rowmask:
  "BatchDedup R keys rowmask1 index = BatchDedup R keys rowmask2 index"
  by (simp add: BatchDedup_def)

text \<open>
  C2: when the zone-map reader answers that the key is not within its range, \<open>Dedup\<close>
  returns success at once: the result is \<open>nil\<close>, only the zone-map reader object may
  have changed, and neither the bloom-filter reader object nor its method enters the
  result, so the bloom filter is not consulted. With the zone-map reader of the spec
  (range \<open>[lo, hi]\<close>), this is the case for every key strictly below \<open>lo\<close> or strictly
  above \<open>hi\<close>, and the index is returned as it was.
\<close>

theorem fast_reject:
  "(zmReader index = Some z \<and> Contains R k z = (False, z') \<longrightarrow>
      Dedup R k index = Returns (None, index\<lparr>zmReader := Some z'\<rparr>) \<and>
      bfReader (index\<lparr>zmReader := Some z'\<rparr>) = bfReader index) \<and>
   (zmReader index = Some (ZMPayload (Some (lo, hi))) \<and> (k < lo \<or> hi < k) \<and>
    Contains R = ZMReader_Contains \<longrightarrow>
      Dedup R k index = Returns (None, index))"
  by (auto simp add: Dedup_def Let_def ZMReader_Contains_def)

theorem fast_reject_witness:
  "zmReader ex_counting_index = Some (ZMPayload (Some (1, 50))) \<and>
   Contains ex_counting_readers 100 (ZMPayload (Some (1, 50))) = (False, ZMPayload (Some (1, 50))) \<and>
   ((100::int) < 1 \<or> 50 < (100::int)) \<and>
   Contains ex_counting_readers = ZMReader_Contains \<and>
   Dedup ex_counting_readers 100 ex_counting_index = Returns (None, ex_counting_index) \<and>
   bfReader ex_counting_index = Some 0"
proof -
  have h: "zmReader ex_counting_index = Some (ZMPayload (Some (1, 50)))"
    "Contains ex_counting_readers = ZMReader_Contains"
    "bfReader ex_counting_index = Some 0"
    "Contains ex_counting_readers 100 (ZMPayload (Some (1, 50))) = (False, ZMPayload (Some (1, 50)))"
    by (simp_all add: ex_counting_index_def ex_counting_readers_def ZMReader_Contains_def)
  from fast_reject [of ex_counting_index "ZMPayload (Some (1, 50))" ex_counting_readers 100
      "ZMPayload (Some (1, 50))" 1 50] h
  show ?thesis by simp
qed

section \<open>The index builder\<close>

text \<open>
  C6: run on an instrumented block file, \<open>BuildAndFlushBlockIndex\<close> makes a prefix of
  the calls of \<open>build_script\<close>, in that order; every call but the last one succeeded,
  and the job returns the outcome of the last one, so the first error ends the job and
  is what the job returns. \<open>WriteIndexMeta\<close> is called only in a run that made all the
  calls of the script, where it is the last one, after both index writers have been
  finalized successfully and the metadata has been serialized; a job that fails earlier
  never calls it.
\<close>

theorem build_atomic:
  "case BuildAndFlushBlockIndex (logged E) pk V (w, []) of (err, w', l) \<Rightarrow>
     l \<noteq> [] \<and> map fst l = take (length l) build_script \<and>
     list_all (\<lambda>e. snd e = None) (butlast l) \<and>
     err = snd (last l) \<and>
     (err = None \<longrightarrow> length l = length build_script) \<and>
     ((S_WriteIndexMeta \<in> fst ` set l) = (length l = length build_script))"
  by (simp add: BuildAndFlushBlockIndex_def logged_def log_sum_def log_err_def log_new_def
      build_script_def Let_def split: prod.splits sum.splits option.splits)

lemma ex_build_ok:
  "BuildAndFlushBlockIndex (logged (spec_collab ex_hs 16)) 0 [1, 5, 10, 50] (fresh_block 2, []) =
     (None, snd (BuildAndFlushBlockIndex (logged (spec_collab ex_hs 16)) 0 [1, 5, 10, 50] (fresh_block 2, [])))"
  by (simp add: BuildAndFlushBlockIndex_def logged_def log_sum_def log_err_def log_new_def
      spec_collab_def fresh_block_def Let_def numeral_2_eq_2)

lemma ex_build_fails:
  "BuildAndFlushBlockIndex (logged (spec_collab ex_hs 16)) 0 [1, 5, 10, 50] (fresh_block 1, []) =
     (Some ErrInvalidParam,
      \<lparr>slots = [ZMPayload (Some (1, 50))], metablob = None,
        zmw = Some (0, 0, 0, Some (1, 50)), bfw = None\<rparr>,
      [(S_OpenColumn, None), (S_NewZMWriter, None), (S_OpenIndexFile 0, None), (S_ZM_Init, None),
       (S_ZM_AddValues, None), (S_ZM_Finalize, None), (S_NewBFWriter, None),
       (S_OpenIndexFile 1, Some ErrInvalidParam)])"
  by (simp add: BuildAndFlushBlockIndex_def logged_def log_sum_def log_err_def log_new_def
      spec_collab_def fresh_block_def Let_def)

theorem build_atomic_witness:
  "fst (BuildAndFlushBlockIndex (logged (spec_collab ex_hs 16)) 0 [1, 5, 10, 50] (fresh_block 2, [])) = None \<and>
   length (snd (snd (BuildAndFlushBlockIndex (logged (spec_collab ex_hs 16)) 0 [1, 5, 10, 50]
             (fresh_block 2, [])))) = length build_script \<and>
   fst (BuildAndFlushBlockIndex (logged (spec_collab ex_hs 16)) 0 [1, 5, 10, 50] (fresh_block 1, []))
     = Some ErrInvalidParam \<and>
   metablob (fst (snd (BuildAndFlushBlockIndex (logged (spec_collab ex_hs 16)) 0 [1, 5, 10, 50]
             (fresh_block 1, [])))) = None \<and>
   S_WriteIndexMeta \<notin> fst ` set (snd (snd (BuildAndFlushBlockIndex (logged (spec_collab ex_hs 16)) 0
             [1, 5, 10, 50] (fresh_block 1, []))))"
proof -
  have ok: "fst (BuildAndFlushBlockIndex (logged (spec_collab ex_hs 16)) 0 [1, 5, 10, 50] (fresh_block 2, [])) = None"
    using ex_build_ok by (metis fst_conv)
  from build_atomic [of "spec_collab ex_hs 16" 0 "[1, 5, 10, 50]" "fresh_block 2"] ok
  have len: "length (snd (snd (BuildAndFlushBlockIndex (logged (spec_collab ex_hs 16)) 0 [1, 5, 10, 50]
             (fresh_block 2, [])))) = length build_script"
    by (simp add: case_prod_beta)
  have bad: "fst (BuildAndFlushBlockIndex (logged (spec_collab ex_hs 16)) 0 [1, 5, 10, 50] (fresh_block 1, []))
      = Some ErrInvalidParam \<and>
    metablob (fst (snd (BuildAndFlushBlockIndex (logged (spec_collab ex_hs 16)) 0 [1, 5, 10, 50]
             (fresh_block 1, [])))) = None \<and>
    S_WriteIndexMeta \<notin> fst ` set (snd (snd (BuildAndFlushBlockIndex (logged (spec_collab ex_hs 16)) 0
             [1, 5, 10, 50] (fresh_block 1, []))))"
    unfolding ex_build_fails by simp
  from ok len bad show ?thesis by blast
qed

section \<open>No false negatives\<close>

lemma zm_add_keeps: "zm_contains acc k \<Longrightarrow> zm_contains (zm_add v acc) k"
  by (cases acc) (auto simp: min_le_iff_disj le_max_iff_disj)

lemma zm_add_self: "zm_contains (zm_add v acc) v"
  by (cases acc) auto

lemma zm_fold_contains:
  "k \<in> set V \<or> zm_contains acc k \<Longrightarrow> zm_contains (fold zm_add V acc) k"
proof (induction V arbitrary: acc)
  case Nil
  then show ?case by simp
next
  case (Cons v V)
  have "k \<in> set V \<or> zm_contains (zm_add v acc) k"
    using Cons.prems zm_add_keeps [of acc k v] zm_add_self [of v acc] by auto
  then show ?case using Cons.IH by simp
qed

lemma bf_fold_mono: "bits \<subseteq> fold (bf_add hs m) V bits"
proof (induction V arbitrary: bits)
  case Nil
  then show ?case by simp
next
  case (Cons v V)
  have "bits \<subseteq> bf_add hs m v bits" by (simp add: bf_add_def)
  also have "\<dots> \<subseteq> fold (bf_add hs m) V (bf_add hs m v bits)" by (rule Cons.IH)
  finally show ?case by simp
qed

lemma bf_fold_contains:
  "k \<in> set V \<Longrightarrow> h \<in> set hs \<Longrightarrow> h k mod m \<in> fold (bf_add hs m) V bits"
proof (induction V arbitrary: bits)
  case Nil
  then show ?case by simp
next
  case (Cons v V)
  show ?case
  proof (cases "k = v")
    case True
    have "h k mod m \<in> bf_add hs m v bits"
      using True Cons.prems(2) by (auto simp: bf_add_def)
    then show ?thesis using bf_fold_mono [of "bf_add hs m v bits" hs m V] by auto
  next
    case False
    then have "k \<in> set V" using Cons.prems(1) by simp
    then show ?thesis using Cons.IH Cons.prems(2) by simp
  qed
qed

lemma bf_may_contain_built:
  "k \<in> set V \<Longrightarrow> bf_may_contain hs m (fold (bf_add hs m) V bits) k"
  by (simp add: bf_may_contain_def list_all_iff bf_fold_contains)

lemma build_spec:
  assumes "2 \<le> length (slots w0)"
  shows "BuildAndFlushBlockIndex (spec_collab hs m) pk V w0 =
     (None, w0\<lparr>slots := (slots w0)[0 := ZMPayload (fold zm_add V None),
                                   1 := BFPayload (fold (bf_add hs m) V {})],
              metablob := Some [\<lparr>IdxType = BlockZoneMapIndex, CompType = Plain,
                                 ColIdx = word_of_int pk, InternalIdx = 0\<rparr>,
                               \<lparr>IdxType = StaticFilterIndex, CompType = Plain,
                                 ColIdx = word_of_int pk, InternalIdx = 1\<rparr>],
              zmw := Some (0, word_of_int pk, 0, fold zm_add V None),
              bfw := Some (1, word_of_int pk, 1, fold (bf_add hs m) V {})\<rparr>)"
proof -
  have ne: "slots w0 \<noteq> []" using assms by auto
  show ?thesis using assms ne
    by (simp add: BuildAndFlushBlockIndex_def spec_collab_def Let_def)
qed

lemma read_spec:
  assumes "2 \<le> length (slots w)"
    and "metablob w = Some [\<lparr>IdxType = BlockZoneMapIndex, CompType = ct1, ColIdx = c1, InternalIdx = 0\<rparr>,
                            \<lparr>IdxType = StaticFilterIndex, CompType = ct2, ColIdx = c2, InternalIdx = 1\<rparr>]"
  shows "ReadFrom (spec_collab hs m) pk cid index w =
           Returns (None, index\<lparr>zmReader := Some (slots w ! 0), bfReader := Some (slots w ! 1)\<rparr>, w)"
proof -
  have ne: "slots w \<noteq> []" "0 < length (slots w)" "1 < length (slots w)" using assms(1) by auto
  show ?thesis using assms ne
    by (simp add: ReadFrom_def spec_collab_def Let_def)
qed

text \<open>
  C1: let a block's zone-map and bloom-filter indexes be built from the key values \<open>V\<close>
  by \<open>BuildAndFlushBlockIndex\<close> on a block file whose primary-key column has at least
  two index slots, and let an immutable index be constructed from that block by
  \<open>ReadFrom\<close>. Then both calls succeed, and for every key \<open>k\<close> of \<open>V\<close>, \<open>Dedup k\<close> on that
  index returns \<open>ErrPossibleDuplicate\<close>. This holds for every hash family \<open>hs\<close> and size
  \<open>m\<close> of the bloom filter, every primary-key ordinal and every block identifier.
\<close>

theorem no_false_negatives:
  assumes "k \<in> set V" and "2 \<le> length (slots w0)"
  shows "\<exists>w1 w2 index index'.
           BuildAndFlushBlockIndex (spec_collab hs m) pk V w0 = (None, w1) \<and>
           ReadFrom (spec_collab hs m) pk cid NewImmutableIndex w1 = Returns (None, index, w2) \<and>
           Dedup (spec_readers hs m) k index = Returns (Some ErrPossibleDuplicate, index')"
proof -
  let ?zm = "fold zm_add V None"
  let ?bits = "fold (bf_add hs m) V {}"
  let ?w1 = "snd (BuildAndFlushBlockIndex (spec_collab hs m) pk V w0)"
  let ?index = "\<lparr>zmReader = Some (ZMPayload ?zm), bfReader = Some (BFPayload ?bits)\<rparr>"
  have b: "BuildAndFlushBlockIndex (spec_collab hs m) pk V w0 = (None, ?w1)"
    using build_spec [OF assms(2)] by simp
  have len: "2 \<le> length (slots ?w1)"
    using assms(2) by (simp add: build_spec [OF assms(2)])
  have l: "0 < length (slots w0)" "Suc 0 < length (slots w0)"
    using assms(2) by auto
  have s0: "slots ?w1 ! 0 = ZMPayload ?zm"
    using l by (simp add: build_spec [OF assms(2)] nth_list_update)
  have s1: "slots ?w1 ! 1 = BFPayload ?bits"
    using l by (simp add: build_spec [OF assms(2)] nth_list_update)
  have "ReadFrom (spec_collab hs m) pk cid NewImmutableIndex ?w1 =
          Returns (None, NewImmutableIndex\<lparr>zmReader := Some (slots ?w1 ! 0),
                                            bfReader := Some (slots ?w1 ! 1)\<rparr>, ?w1)"
    by (rule read_spec [OF len]) (simp add: build_spec [OF assms(2)])
  then have r: "ReadFrom (spec_collab hs m) pk cid NewImmutableIndex ?w1 = Returns (None, ?index, ?w1)"
    unfolding s0 s1 by (simp add: NewImmutableIndex_def)
  have z: "zm_contains ?zm k"
    using assms(1) by (simp add: zm_fold_contains)
  have f: "bf_may_contain hs m ?bits k"
    using assms(1) by (rule bf_may_contain_built)
  have d: "Dedup (spec_readers hs m) k ?index = Returns (Some ErrPossibleDuplicate, ?index)"
    using z f
    by (simp add: Dedup_def Let_def spec_readers_def ZMReader_Contains_def
        BFReader_MayContainsKey_def)
  from b r d show ?thesis by blast
qed

theorem no_false_negatives_witness:
  "(5::int) \<in> set [1, 5, 10, 50] \<and> 2 \<le> length (slots (fresh_block 2 :: int block_world)) \<and>
   (\<exists>w1 w2 index index'.
      BuildAndFlushBlockIndex (spec_collab ex_hs 16) 0 [1, 5, 10, 50] (fresh_block 2) = (None, w1) \<and>
      ReadFrom (spec_collab ex_hs 16) 0 ex_cid NewImmutableIndex w1 = Returns (None, index, w2) \<and>
      Dedup (spec_readers ex_hs 16) 5 index = Returns (Some ErrPossibleDuplicate, index'))"
proof -
  have h1: "(5::int) \<in> set [1, 5, 10, 50]" by simp
  have h2: "2 \<le> length (slots (fresh_block 2 :: int block_world))"
    by (simp add: fresh_block_def)
  from no_false_negatives [OF h1 h2, of ex_hs 16 0 ex_cid] h1 h2 show ?thesis
    by blast
qed

section \<open>Replay of a segment store\<close>























section \<open>Reference counting\<close>






lemma rc_states_hd: "hd (rc_states rel ops s) = s"
  by (cases ops) auto








end
